theory Spec2Isabelle
  imports Complex_Main "HOL-Library.Sublist"
begin

section \<open>Strings\<close>

text \<open>
  A Python \<open>str\<close> is a sequence of Unicode code points, and \<open>len\<close> counts code points.
  The two status marks of the handlers lie outside Latin-1, so a string is modelled as the
  list of its code points; \<open>u\<close> turns an ASCII literal into such a list.
\<close>

type_synonym ustring = "nat list"

definition u :: "string \<Rightarrow> ustring" where
  "u s = map of_char s"

definition check_mark :: ustring where
  \<comment> \<open>U+2705, the mark that opens every success string\<close>
  "check_mark = [9989]"

definition cross_mark :: ustring where
  \<comment> \<open>U+274C, the mark that opens every failure string\<close>
  "cross_mark = [10060]"

definition nl :: ustring where
  "nl = [10]"

definition dq :: ustring where
  \<comment> \<open>the double quote\<close>
  "dq = [34]"

definition sq :: ustring where
  \<comment> \<open>the apostrophe\<close>
  "sq = [39]"

fun join :: "ustring \<Rightarrow> ustring list \<Rightarrow> ustring" where
  \<comment> \<open>\<open>sep.join(xs)\<close>\<close>
  "join sep [] = []"
| "join sep [x] = x"
| "join sep (x # y # ys) = x @ sep @ join sep (y # ys)"

function show_nat :: "nat \<Rightarrow> ustring" where
  \<comment> \<open>decimal digits of a natural number, as \<open>str\<close> prints them\<close>
  "show_nat n = (if n < 10 then [48 + n] else show_nat (n div 10) @ [48 + n mod 10])"
  by pat_completeness auto
termination
  by (relation "measure id") auto

declare show_nat.simps [simp del]

definition show_int :: "int \<Rightarrow> ustring" where
  \<comment> \<open>\<open>str(i)\<close> for a Python int, which is unbounded\<close>
  "show_int i = (if i < 0 then 45 # show_nat (nat (- i)) else show_nat (nat i))"

definition py_int :: "real \<Rightarrow> int" where
  \<comment> \<open>\<open>int(x)\<close> on a float truncates towards zero\<close>
  "py_int x = (if 0 \<le> x then \<lfloor>x\<rfloor> else \<lceil>x\<rceil>)"

fun or_else :: "ustring option \<Rightarrow> ustring \<Rightarrow> ustring" where
  \<comment> \<open>\<open>a or b\<close> for an optional string \<open>a\<close>: \<open>None\<close> and the empty string are falsy\<close>
  "or_else None d = d"
| "or_else (Some s) d = (if s = [] then d else s)"

section \<open>Configuration\<close>

definition default_voice :: ustring where
  "default_voice = u ''coral''"

definition default_instructions :: ustring where
  "default_instructions =
     u ''Keep the summary as short and concise as possible. Speak in a clear and informative tone.''"

definition VALID_VOICES :: "ustring list" where
  "VALID_VOICES = map u [''alloy'', ''ash'', ''ballad'', ''coral'', ''echo'', ''fable'',
     ''nova'', ''onyx'', ''sage'', ''shimmer'']"

section \<open>Exceptions and argument validation\<close>

text \<open>
  The three kinds of exception the handlers tell apart: a pydantic validation error (the
  only one with an \<open>errors\<close> method; each error is a location and a message), the
  repository's own \<open>TTSError\<close> (message and code), and any other \<open>Exception\<close>, of which
  only \<open>str(e)\<close> is used.

  The argument classes are pydantic models. What is taken from that library: a model
  checks its fields in the order of their declaration and reports every failing field; a
  string shorter than \<open>min_length\<close> and a \<open>ValueError\<close> from a field validator each
  give one error, located at the field, with the two messages below; a field declared
  \<open>str\<close> accepts strings only; keys that name no field are ignored. The protocol layer
  hands the handlers arguments of the declared types, so a summary and a tone are strings
  and a voice and instructions are strings or absent.
\<close>

datatype exn =
    ValidationError "(ustring list \<times> ustring) list"
  | TTSError ustring ustring
  | Error ustring

definition voice_msg :: ustring where
  \<comment> \<open>pydantic prefixes the text of a \<open>ValueError\<close> raised by a field validator\<close>
  "voice_msg = u ''Value error, '' @ u ''Voice must be one of: '' @ join (u '', '') VALID_VOICES"

definition min_length_msg :: ustring where
  \<comment> \<open>pydantic's message for a string under \<open>min_length=1\<close>\<close>
  "min_length_msg = u ''String should have at least 1 character''"

record PlaySummaryArgs =
  args_summary :: ustring
  args_voice :: "ustring option"
  args_instructions :: "ustring option"

definition PlaySummaryArgs_new ::
    "ustring \<Rightarrow> ustring option \<Rightarrow> ustring option \<Rightarrow> exn + PlaySummaryArgs" where
  \<comment> \<open>the constructor: every failing field is reported, in field order\<close>
  "PlaySummaryArgs_new summary voice_arg instructions_arg =
     (let errs =
        (if length summary < 1 then [([u ''summary''], min_length_msg)] else []) @
        (case voice_arg of
           None \<Rightarrow> []
         | Some v \<Rightarrow> if v \<notin> set VALID_VOICES then [([u ''voice''], voice_msg)] else [])
      in if errs = []
         then Inr \<lparr>args_summary = summary, args_voice = voice_arg,
                   args_instructions = instructions_arg\<rparr>
         else Inl (ValidationError errs))"

definition SetVoiceArgs_new :: "ustring \<Rightarrow> exn + ustring" where
  "SetVoiceArgs_new v =
     (if v \<notin> set VALID_VOICES then Inl (ValidationError [([u ''voice''], voice_msg)])
      else Inr v)"

definition SetToneArgs_new :: "ustring \<Rightarrow> exn + ustring" where
  "SetToneArgs_new t =
     (if length t < 1 then Inl (ValidationError [([u ''tone''], min_length_msg)])
      else Inr t)"

definition format_errors :: "(ustring list \<times> ustring) list \<Rightarrow> ustring" where
  \<comment> \<open>the loop over \<open>e.errors()\<close> shared by the three handlers\<close>
  "format_errors errs =
     cross_mark @ u '' Invalid arguments: '' @
     join (u '', '') (map (\<lambda>(loc, msg). join (u ''.'') loc @ u '': '' @ msg) errs)"

section \<open>Preference record and its file\<close>

record UserState =
  voice :: ustring
  tone :: ustring

definition UserState_default :: UserState where
  "UserState_default = \<lparr>voice = default_voice, tone = default_instructions\<rparr>"

text \<open>
  What \<open>json.load\<close> returns. An object is kept as the list of its members in file order;
  \<open>json.load\<close> lets the last of several equal keys win.
\<close>

datatype json =
    JNull
  | JBool bool
  | JNum real
  | JStr ustring
  | JArr "json list"
  | JObj "(ustring \<times> json) list"

datatype state_file_content =
    Missing
  | Corrupt
  | Doc json

fun UserState_field :: "json option \<Rightarrow> ustring \<Rightarrow> ustring option" where
  \<comment> \<open>a field declared \<open>str\<close> with a default: absent takes the default, a string is kept as
     it is (the class has no validator), anything else is a validation error (\<open>None\<close>)\<close>
  "UserState_field None d = Some d"
| "UserState_field (Some (JStr s)) d = Some s"
| "UserState_field (Some _) d = None"

fun UserState_new :: "json \<Rightarrow> UserState option" where
  \<comment> \<open>\<open>UserState(**data)\<close>; \<open>None\<close> when it raises. Unknown keys are ignored.\<close>
  "UserState_new (JObj kvs) =
     (case UserState_field (map_of (rev kvs) (u ''voice'')) default_voice of
        None \<Rightarrow> None
      | Some v \<Rightarrow>
          (case UserState_field (map_of (rev kvs) (u ''tone'')) default_instructions of
             None \<Rightarrow> None
           | Some t \<Rightarrow> Some \<lparr>voice = v, tone = t\<rparr>))"
| "UserState_new _ = None"

section \<open>Environment and process state\<close>

text \<open>
  Handlers run against two things. The \<open>env\<close> record is what the outside answers during
  one call or one startup step: the clock, the platform, the search path, and whether each
  file-system or provider operation raises. The \<open>world\<close> record is what persists between
  calls: the in-memory preference record, the state file, the names in the scratch
  directory (\<open>None\<close> when the directory does not exist), the two module globals set by
  \<open>initialize_server\<close>, and a trace of the provider requests made, the player processes
  started and the deferred deletions scheduled. A speech artifact is identified by its
  file name inside the scratch directory, which is fixed for the process. Logging is not
  modelled, and the deferred deletion is recorded, not run.
\<close>

datatype player =
    AfplayPlayer
  | WindowsPlayer
  | LinuxPlayer "ustring option"
  | FallbackPlayer

record tts_request =
  req_model :: ustring
  req_voice :: ustring
  req_input :: ustring
  req_instructions :: ustring

datatype write_outcome =
    Written
  | OpenFailed
  | DumpFailed

record env =
  now :: real
  system :: ustring
  which :: "ustring \<Rightarrow> ustring option"
  api_key :: "ustring option"
  mkdir_fails :: bool
  glob_fails :: bool
  stat :: "ustring \<Rightarrow> real option"
  unlink_fails :: "ustring \<Rightarrow> bool"
  save_outcome :: write_outcome
  synth_error :: "tts_request \<Rightarrow> ustring option"
  stream_fails :: bool
  stream_msg :: ustring
  spawn_error :: "ustring option"

record world =
  current_state :: UserState
  state_file :: state_file_content
  temp_dir :: "ustring list option"
  openai_client :: bool
  audio_player :: "player option"
  synth_calls :: "tts_request list"
  spawned :: "ustring list list"
  scheduled :: "ustring list"

definition load_state :: "world \<Rightarrow> world" where
  \<comment> \<open>no file: the record is left as it is; any exception: the defaults\<close>
  "load_state w =
     (case state_file w of
        Missing \<Rightarrow> w
      | Corrupt \<Rightarrow> w\<lparr>current_state := UserState_default\<rparr>
      | Doc data \<Rightarrow>
          (case UserState_new data of
             None \<Rightarrow> w\<lparr>current_state := UserState_default\<rparr>
           | Some s \<Rightarrow> w\<lparr>current_state := s\<rparr>))"

definition save_state :: "env \<Rightarrow> world \<Rightarrow> world" where
  \<comment> \<open>never raises: a failing \<open>open\<close> leaves the file, a failing \<open>json.dump\<close> leaves it
     truncated\<close>
  "save_state e w =
     (case save_outcome e of
        Written \<Rightarrow>
          w\<lparr>state_file := Doc (JObj [(u ''voice'', JStr (voice (current_state w))),
                                      (u ''tone'', JStr (tone (current_state w)))])\<rparr>
      | OpenFailed \<Rightarrow> w
      | DumpFailed \<Rightarrow> w\<lparr>state_file := Corrupt\<rparr>)"

definition fresh_process :: "world \<Rightarrow> world" where
  \<comment> \<open>a new process on the same machine: the files stay, the module globals are reset\<close>
  "fresh_process w =
     \<lparr>current_state = UserState_default, state_file = state_file w, temp_dir = temp_dir w,
      openai_client = False, audio_player = None, synth_calls = [], spawned = [],
      scheduled = []\<rparr>"

section \<open>Audio players\<close>

definition truthy :: "ustring option \<Rightarrow> bool" where
  "truthy r = (case r of None \<Rightarrow> False | Some s \<Rightarrow> s \<noteq> [])"

fun probe :: "env \<Rightarrow> ustring list \<Rightarrow> ustring option" where
  \<comment> \<open>the loop of \<open>LinuxPlayer.check\<close>: the first command found on the search path\<close>
  "probe e [] = None"
| "probe e (p # ps) = (if truthy (which e p) then Some p else probe e ps)"

definition linux_players :: "ustring list" where
  "linux_players = map u [''mpg123'', ''play'', ''aplay'', ''ffplay'', ''cvlc'']"

fun check :: "env \<Rightarrow> player \<Rightarrow> bool \<times> player" where
  \<comment> \<open>the answer of \<open>check\<close> and the player afterwards (the Linux one remembers its command)\<close>
  "check e AfplayPlayer =
     (if system e \<noteq> u ''Darwin'' then (False, AfplayPlayer)
      else (which e (u ''afplay'') \<noteq> None, AfplayPlayer))"
| "check e WindowsPlayer = (system e = u ''Windows'', WindowsPlayer)"
| "check e (LinuxPlayer c) =
     (if system e \<noteq> u ''Linux'' then (False, LinuxPlayer c)
      else (case probe e linux_players of
              Some p \<Rightarrow> (True, LinuxPlayer (Some p))
            | None \<Rightarrow> (False, LinuxPlayer c)))"
| "check e FallbackPlayer = (True, FallbackPlayer)"

definition players :: "player list" where
  "players = [AfplayPlayer, WindowsPlayer, LinuxPlayer None, FallbackPlayer]"

fun first_available :: "env \<Rightarrow> player list \<Rightarrow> player option" where
  \<comment> \<open>the loop of \<open>get_audio_player\<close>, \<open>None\<close> when it runs off the end\<close>
  "first_available e [] = None"
| "first_available e (p # ps) =
     (case check e p of
        (True, p') \<Rightarrow> Some p'
      | (False, _) \<Rightarrow> first_available e ps)"

definition get_audio_player :: "env \<Rightarrow> player option" where
  "get_audio_player e = first_available e players"

definition replace_sq :: "ustring \<Rightarrow> ustring" where
  \<comment> \<open>\<open>file_path.replace("'", "''")\<close>\<close>
  "replace_sq s = concat (map (\<lambda>c. if c = 39 then [39, 39] else [c]) s)"

definition windows_script :: "ustring \<Rightarrow> ustring" where
  "windows_script path =
     nl @ u ''        Add-Type -AssemblyName System.Windows.Forms'' @
     nl @ u ''        $player = New-Object System.Media.SoundPlayer'' @
     nl @ u ''        $player.SoundLocation = '' @ sq @ replace_sq path @ sq @
     nl @ u ''        $player.Play()'' @
     nl @ u ''        ''"

fun play_argv :: "env \<Rightarrow> player \<Rightarrow> ustring \<Rightarrow> exn + ustring list" where
  \<comment> \<open>the command line each \<open>play\<close> hands to \<open>Popen\<close>, or the exception it raises first\<close>
  "play_argv e AfplayPlayer path = Inr [u ''afplay'', path]"
| "play_argv e WindowsPlayer path =
     Inr [u ''powershell'', u ''-Command'', windows_script path]"
| "play_argv e (LinuxPlayer c) path =
     (case c of
        None \<Rightarrow> Inl (Error (u ''No audio player available''))
      | Some cmd \<Rightarrow>
          if cmd = [] then Inl (Error (u ''No audio player available''))
          else Inr (cmd #
            (if cmd = u ''cvlc'' then [u ''--play-and-exit'', u ''--intf'', u ''dummy'', path]
             else if cmd = u ''ffplay'' then [u ''-nodisp'', u ''-autoexit'', path]
             else [path])))"
| "play_argv e FallbackPlayer path =
     Inr [if system e = u ''Darwin'' then u ''open''
          else if system e = u ''Windows'' then u ''start''
          else u ''xdg-open'', path]"

section \<open>Scratch directory\<close>

definition ensure_temp_dir :: "env \<Rightarrow> world \<Rightarrow> exn + world" where
  "ensure_temp_dir e w =
     (if mkdir_fails e
      then Inl (TTSError (u ''Failed to create temporary directory'') (u ''TEMP_DIR_ERROR''))
      else Inr (case temp_dir w of None \<Rightarrow> w\<lparr>temp_dir := Some []\<rparr> | Some _ \<Rightarrow> w))"

definition matches_pattern :: "ustring \<Rightarrow> bool" where
  \<comment> \<open>the glob \<open>speech_*.mp3\<close>: the star stands for any run of characters, also none\<close>
  "matches_pattern name =
     (11 \<le> length name \<and> take 7 name = u ''speech_'' \<and>
      drop (length name - 4) name = u ''.mp3'')"

fun sweep :: "env \<Rightarrow> ustring list \<Rightarrow> ustring list \<Rightarrow> ustring list" where
  \<comment> \<open>the loop of \<open>cleanup_old_files\<close> over the globbed names; the last argument is the
     directory. A raising \<open>stat\<close> or \<open>unlink\<close> is ignored and the loop goes on.\<close>
  "sweep e [] dir = dir"
| "sweep e (f # fs) dir =
     sweep e fs
       (case stat e f of
          None \<Rightarrow> dir
        | Some mtime \<Rightarrow>
            if now e - mtime > 3600
            then (if unlink_fails e f then dir else removeAll f dir)
            else dir)"

definition cleanup_old_files :: "env \<Rightarrow> world \<Rightarrow> world" where
  "cleanup_old_files e w =
     (case temp_dir w of
        None \<Rightarrow> w
      | Some dir \<Rightarrow>
          if glob_fails e then w
          else w\<lparr>temp_dir := Some (sweep e (filter matches_pattern dir) dir)\<rparr>)"

section \<open>Tool handlers\<close>

text \<open>
  Each handler is a \<open>try\<close> body and an \<open>except Exception\<close> clause. The body is modelled
  as a function that returns either the exception it raised or the string it returned,
  together with the world as it stands at that point: what was done before a raise stays
  done. The handler proper applies the \<open>except\<close> clause to that. The body of
  \<open>play_summary\<close> is cut in three where the source has its comments: validation and
  fallback, provider call and file write, playback and scheduling.
\<close>

definition timestamp :: "env \<Rightarrow> int" where
  "timestamp e = py_int (now e * 1000)"

definition speech_file :: "int \<Rightarrow> ustring" where
  \<comment> \<open>the artifact's file name in the scratch directory\<close>
  "speech_file ts = u ''speech_'' @ show_int ts @ u ''.mp3''"

definition stream_to_file :: "ustring \<Rightarrow> ustring list \<Rightarrow> ustring list" where
  \<comment> \<open>writing a file creates its name unless it is there already\<close>
  "stream_to_file name dir = (if name \<in> set dir then dir else dir @ [name])"

definition play_summary_success :: "ustring \<Rightarrow> ustring \<Rightarrow> ustring" where
  "play_summary_success v summary =
     check_mark @ u '' Summary converted to speech and playing in the background'' @ nl @
     u ''Voice: '' @ v @ nl @
     u ''Length: '' @ show_nat (length summary) @ u '' characters''"

definition start_playback ::
    "env \<Rightarrow> world \<Rightarrow> ustring \<Rightarrow> ustring \<Rightarrow> ustring \<Rightarrow> (exn + ustring) \<times> world" where
  \<comment> \<open>from \<open>audio_player.play\<close> to the \<open>return\<close>: start the player, schedule the deletion\<close>
  "start_playback e w v summary file =
     (case audio_player w of
        None \<Rightarrow>
          (Inl (Error (sq @ u ''NoneType'' @ sq @ u '' object has no attribute '' @
                       sq @ u ''play'' @ sq)), w)
      | Some p \<Rightarrow>
          (case play_argv e p file of
             Inl err \<Rightarrow> (Inl err, w)
           | Inr argv \<Rightarrow>
               (case spawn_error e of
                  Some msg \<Rightarrow> (Inl (Error msg), w)
                | None \<Rightarrow>
                    (Inr (play_summary_success v summary),
                     w\<lparr>spawned := spawned w @ [argv], scheduled := scheduled w @ [file]\<rparr>))))"

definition synthesize ::
    "env \<Rightarrow> world \<Rightarrow> ustring \<Rightarrow> ustring \<Rightarrow> ustring \<Rightarrow> ustring \<Rightarrow> (exn + ustring) \<times> world" where
  \<comment> \<open>the provider call and \<open>stream_to_file\<close>, then the playback\<close>
  "synthesize e w v instructions summary file =
     (if \<not> openai_client w
      then (Inl (Error (sq @ u ''NoneType'' @ sq @ u '' object has no attribute '' @
                        sq @ u ''audio'' @ sq)), w)
      else
        (let req = \<lparr>req_model = u ''gpt-4o-mini-tts'', req_voice = v, req_input = summary,
                    req_instructions = instructions\<rparr>;
             w1 = w\<lparr>synth_calls := synth_calls w @ [req]\<rparr>
         in (case synth_error e req of
               Some msg \<Rightarrow> (Inl (Error msg), w1)
             | None \<Rightarrow>
                 (case temp_dir w1 of
                    None \<Rightarrow> (Inl (Error (stream_msg e)), w1)
                  | Some dir \<Rightarrow>
                      (if stream_fails e then (Inl (Error (stream_msg e)), w1)
                       else start_playback e (w1\<lparr>temp_dir := Some (stream_to_file file dir)\<rparr>)
                              v summary file)))))"

definition play_summary_body ::
    "env \<Rightarrow> world \<Rightarrow> ustring \<Rightarrow> ustring option \<Rightarrow> ustring option
       \<Rightarrow> (exn + ustring) \<times> world" where
  "play_summary_body e w summary voice_arg instructions_arg =
     (case PlaySummaryArgs_new summary voice_arg instructions_arg of
        Inl err \<Rightarrow> (Inl err, w)
      | Inr args \<Rightarrow>
          synthesize e w
            (or_else (args_voice args) (voice (current_state w)))
            (or_else (args_instructions args) (tone (current_state w)))
            (args_summary args)
            (speech_file (timestamp e)))"

definition play_summary ::
    "env \<Rightarrow> world \<Rightarrow> ustring \<Rightarrow> ustring option \<Rightarrow> ustring option \<Rightarrow> ustring \<times> world" where
  "play_summary e w summary voice_arg instructions_arg =
     (case play_summary_body e w summary voice_arg instructions_arg of
        (Inr r, w') \<Rightarrow> (r, w')
      | (Inl err, w') \<Rightarrow>
          (case err of
             ValidationError errs \<Rightarrow> format_errors errs
           | TTSError msg code \<Rightarrow>
               cross_mark @ u '' TTS Error ('' @ code @ u ''): '' @ msg
           | Error msg \<Rightarrow> cross_mark @ u '' Error playing summary: '' @ msg,
           w'))"

definition set_voice_body :: "env \<Rightarrow> world \<Rightarrow> ustring \<Rightarrow> (exn + ustring) \<times> world" where
  "set_voice_body e w voice_arg =
     (case SetVoiceArgs_new voice_arg of
        Inl err \<Rightarrow> (Inl err, w)
      | Inr v \<Rightarrow>
          (Inr (check_mark @ u '' Default voice set to: '' @ v @ nl @ nl @
                u ''All future audio summaries will use this voice unless specifically overridden.''),
           save_state e (w\<lparr>current_state := (current_state w)\<lparr>voice := v\<rparr>\<rparr>)))"

definition set_voice :: "env \<Rightarrow> world \<Rightarrow> ustring \<Rightarrow> ustring \<times> world" where
  "set_voice e w voice_arg =
     (case set_voice_body e w voice_arg of
        (Inr r, w') \<Rightarrow> (r, w')
      | (Inl err, w') \<Rightarrow>
          (case err of
             ValidationError errs \<Rightarrow> format_errors errs
           | TTSError msg code \<Rightarrow> cross_mark @ u '' Error setting voice: '' @ msg
           | Error msg \<Rightarrow> cross_mark @ u '' Error setting voice: '' @ msg,
           w'))"

definition set_tone_body :: "env \<Rightarrow> world \<Rightarrow> ustring \<Rightarrow> (exn + ustring) \<times> world" where
  "set_tone_body e w tone_arg =
     (case SetToneArgs_new tone_arg of
        Inl err \<Rightarrow> (Inl err, w)
      | Inr t \<Rightarrow>
          (Inr (check_mark @ u '' Default tone set to: '' @ dq @ t @ dq @ nl @ nl @
                u ''All future audio summaries will use this tone unless specifically overridden.''),
           save_state e (w\<lparr>current_state := (current_state w)\<lparr>tone := t\<rparr>\<rparr>)))"

definition set_tone :: "env \<Rightarrow> world \<Rightarrow> ustring \<Rightarrow> ustring \<times> world" where
  "set_tone e w tone_arg =
     (case set_tone_body e w tone_arg of
        (Inr r, w') \<Rightarrow> (r, w')
      | (Inl err, w') \<Rightarrow>
          (case err of
             ValidationError errs \<Rightarrow> format_errors errs
           | TTSError msg code \<Rightarrow> cross_mark @ u '' Error setting tone: '' @ msg
           | Error msg \<Rightarrow> cross_mark @ u '' Error setting tone: '' @ msg,
           w'))"

definition raised :: "(exn + ustring) \<times> world \<Rightarrow> bool" where
  \<comment> \<open>the \<open>try\<close> body ended in an exception\<close>
  "raised r = (case fst r of Inl _ \<Rightarrow> True | Inr _ \<Rightarrow> False)"

section \<open>Startup\<close>

definition initialize_server :: "env \<Rightarrow> world \<Rightarrow> exn + world" where
  "initialize_server e w =
     (if \<not> truthy (api_key e)
      then Inl (Error (u ''OPENAI_API_KEY environment variable is required''))
      else
        (case get_audio_player e of
           None \<Rightarrow> Inl (Error
             (u ''No audio player available. Please install an audio player (mpg123, sox, ffmpeg, or vlc on Linux)''))
         | Some p \<Rightarrow>
             (case ensure_temp_dir e (w\<lparr>openai_client := True, audio_player := Some p\<rparr>) of
                Inl err \<Rightarrow> Inl err
              | Inr w1 \<Rightarrow> Inr (load_state (cleanup_old_files e w1)))))"

section \<open>Sample inputs\<close>

text \<open>
  A Linux host with no player on the search path and nothing failing; the state of a
  freshly initialised server on it; the same host a few tenths of a millisecond later,
  with a home directory that cannot be written, and with scratch files
  that are old but cannot be deleted; a host on which one of three scratch files is
  recent. Two state files as another program, or an editor, could have left them: one
  names a voice the provider offers but the list does not, one has an empty tone.
\<close>

definition env0 :: env where
  "env0 = \<lparr>now = 1700000000.2001, system = u ''Linux'', which = (\<lambda>_. None),
     api_key = Some (u ''sk-test''), mkdir_fails = False, glob_fails = False,
     stat = (\<lambda>_. None), unlink_fails = (\<lambda>_. False), save_outcome = Written,
     synth_error = (\<lambda>_. None), stream_fails = False, stream_msg = [], spawn_error = None\<rparr>"

definition world0 :: world where
  "world0 = \<lparr>current_state = UserState_default, state_file = Missing, temp_dir = Some [],
     openai_client = True, audio_player = Some FallbackPlayer, synth_calls = [], spawned = [],
     scheduled = []\<rparr>"

definition env1 :: env where
  "env1 = env0\<lparr>now := 1700000000.2009\<rparr>"


definition env_busy :: env where
  "env_busy = env0\<lparr>stat := (\<lambda>_. Some 0), unlink_fails := (\<lambda>_. True)\<rparr>"

definition env_sweep :: env where
  "env_sweep =
     env0\<lparr>stat := (\<lambda>f. if f = u ''speech_2.mp3'' then Some 1700000000 else Some 0)\<rparr>"

definition unlisted_voice_file :: state_file_content where
  "unlisted_voice_file =
     Doc (JObj [(u ''voice'', JStr (u ''verse'')), (u ''tone'', JStr (u ''calm''))])"

definition blank_tone_file :: state_file_content where
  "blank_tone_file = Doc (JObj [(u ''tone'', JStr [])])"

section \<open>Decimal rendering is injective\<close>

lemma show_nat_nonempty: "show_nat n \<noteq> []"
  by (subst show_nat.simps) simp

lemma show_nat_digits: "c \<in> set (show_nat n) \<Longrightarrow> 48 \<le> c \<and> c \<le> 57"
proof (induction n rule: show_nat.induct)
  case (1 n)
  show ?case
  proof (cases "n < 10")
    case True
    then have "show_nat n = [48 + n]" by (subst show_nat.simps) simp
    with "1.prems" True show ?thesis by simp
  next
    case False
    from False have "show_nat n = show_nat (n div 10) @ [48 + n mod 10]"
      by (subst show_nat.simps) simp
    with "1.prems" have "c \<in> set (show_nat (n div 10)) \<or> c = 48 + n mod 10"
      by auto
    then show ?thesis
    proof
      assume "c \<in> set (show_nat (n div 10))"
      with "1.IH" False show ?thesis by simp
    next
      assume "c = 48 + n mod 10"
      moreover have "n mod 10 < 10" by simp
      ultimately show ?thesis by linarith
    qed
  qed
qed

lemma show_nat_inj: "show_nat m = show_nat n \<Longrightarrow> m = n"
proof (induction m arbitrary: n rule: show_nat.induct)
  case (1 m)
  show ?case
  proof (cases "m < 10")
    case True
    then have sm: "show_nat m = [48 + m]" by (subst show_nat.simps) simp
    show ?thesis
    proof (cases "n < 10")
      case True
      then have "show_nat n = [48 + n]" by (subst show_nat.simps) simp
      with sm "1.prems" show ?thesis by simp
    next
      case False
      then have "show_nat n = show_nat (n div 10) @ [48 + n mod 10]"
        by (subst show_nat.simps) simp
      with sm "1.prems" have "show_nat (n div 10) = []" by simp
      then show ?thesis using show_nat_nonempty by blast
    qed
  next
    case False
    then have sm: "show_nat m = show_nat (m div 10) @ [48 + m mod 10]"
      by (subst show_nat.simps) simp
    show ?thesis
    proof (cases "n < 10")
      case True
      then have "show_nat n = [48 + n]" by (subst show_nat.simps) simp
      with sm "1.prems" have "show_nat (m div 10) = []" by simp
      then show ?thesis using show_nat_nonempty by blast
    next
      case nge: False
      then have "show_nat n = show_nat (n div 10) @ [48 + n mod 10]"
        by (subst show_nat.simps) simp
      with sm "1.prems" have eq: "show_nat (m div 10) = show_nat (n div 10)"
        and md: "m mod 10 = n mod 10" by simp_all
      from "1.IH" [OF False eq] have "m div 10 = n div 10" .
      with md show ?thesis by (metis div_mult_mod_eq)
    qed
  qed
qed

lemma show_int_inj: "show_int a = show_int b \<Longrightarrow> a = b"
proof -
  assume eq: "show_int a = show_int b"
  have no_minus: "\<And>n. hd (show_nat n) \<noteq> 45"
  proof -
    fix n
    have "hd (show_nat n) \<in> set (show_nat n)" using show_nat_nonempty by simp
    then have "48 \<le> hd (show_nat n)" using show_nat_digits by blast
    then show "hd (show_nat n) \<noteq> 45" by simp
  qed
  show ?thesis
  proof (cases "a < 0")
    case True
    show ?thesis
    proof (cases "b < 0")
      case True
      with \<open>a < 0\<close> eq have "show_nat (nat (- a)) = show_nat (nat (- b))"
        by (simp add: show_int_def)
      then have "nat (- a) = nat (- b)" by (rule show_nat_inj)
      with True \<open>a < 0\<close> show ?thesis by simp
    next
      case False
      with \<open>a < 0\<close> eq have "45 # show_nat (nat (- a)) = show_nat (nat b)"
        by (simp add: show_int_def)
      then have "hd (show_nat (nat b)) = 45" by (metis list.sel(1))
      with no_minus show ?thesis by blast
    qed
  next
    case False
    show ?thesis
    proof (cases "b < 0")
      case True
      with \<open>\<not> a < 0\<close> eq have "show_nat (nat a) = 45 # show_nat (nat (- b))"
        by (simp add: show_int_def)
      then have "hd (show_nat (nat a)) = 45" by (metis list.sel(1))
      with no_minus show ?thesis by blast
    next
      case bnn: False
      with \<open>\<not> a < 0\<close> eq have "show_nat (nat a) = show_nat (nat b)"
        by (simp add: show_int_def)
      then have "nat a = nat b" by (rule show_nat_inj)
      with bnn \<open>\<not> a < 0\<close> show ?thesis by simp
    qed
  qed
qed

lemma speech_file_inj: "(speech_file a = speech_file b) = (a = b)"
  using show_int_inj by (auto simp: speech_file_def)

lemma timestamp_env0: "timestamp env0 = 1700000000200"
  by (simp add: timestamp_def env0_def py_int_def)

lemma timestamp_env1: "timestamp env1 = 1700000000200"
  by (simp add: timestamp_def env1_def env0_def py_int_def)

lemma speech_file_sample: "speech_file 1700000000200 = u ''speech_1700000000200.mp3''"
  by (simp add: speech_file_def show_int_def show_nat.simps u_def)

section \<open>Player selection\<close>



lemma get_audio_player_env0: "get_audio_player env0 = Some FallbackPlayer"
  by (simp add: get_audio_player_def players_def env0_def linux_players_def truthy_def u_def)

section \<open>Preference record\<close>

lemma default_voice_listed: "default_voice \<in> set VALID_VOICES"
  by (simp add: default_voice_def VALID_VOICES_def)

lemma verse_unlisted: "u ''verse'' \<notin> set VALID_VOICES"
  by (simp add: VALID_VOICES_def u_def)

lemma robot_unlisted: "u ''robot'' \<notin> set VALID_VOICES"
  by (simp add: VALID_VOICES_def u_def)

lemma keys_differ: "u ''voice'' \<noteq> u ''tone''"
  by (simp add: u_def)

text \<open>
  What does hold of the voice: the three handlers never take it out of the list, and
  \<open>load_state\<close> yields the default voice when the file has no voice or has one that is
  not a string.
\<close>

lemma handlers_keep_voice_listed:
  assumes "voice (current_state w) \<in> set VALID_VOICES"
  shows "voice (current_state (snd (set_voice e w x))) \<in> set VALID_VOICES"
    and "voice (current_state (snd (set_tone e w t))) \<in> set VALID_VOICES"
    and "voice (current_state (snd (play_summary e w s v i))) \<in> set VALID_VOICES"
proof -
  show "voice (current_state (snd (set_voice e w x))) \<in> set VALID_VOICES"
    using assms
    by (cases "save_outcome e")
       (simp_all add: set_voice_def set_voice_body_def SetVoiceArgs_new_def save_state_def)
  show "voice (current_state (snd (set_tone e w t))) \<in> set VALID_VOICES"
    using assms
    by (cases "save_outcome e")
       (simp_all add: set_tone_def set_tone_body_def SetToneArgs_new_def save_state_def)
  have "current_state (snd (play_summary e w s v i)) = current_state w"
    by (auto simp: play_summary_def play_summary_body_def PlaySummaryArgs_new_def
          synthesize_def start_playback_def Let_def
        split: sum.splits option.splits if_splits prod.splits exn.splits)
  with assms show "voice (current_state (snd (play_summary e w s v i))) \<in> set VALID_VOICES"
    by simp
qed

lemma load_state_voice_absent_or_not_string:
  assumes "state_file w = Doc (JObj kvs)"
    and "case map_of (rev kvs) (u ''voice'') of None \<Rightarrow> True | Some (JStr _) \<Rightarrow> False | Some _ \<Rightarrow> True"
  shows "voice (current_state (load_state w)) = default_voice"
  using assms
  by (auto simp: load_state_def UserState_default_def
      split: option.splits json.splits elim!: UserState_field.elims)

text \<open>
  C1. The claim asks that the voice of the preference record is, in every reachable
  state, one of the ten listed voices, and that loading substitutes the default for a
  persisted voice outside the list. \<open>SetVoiceArgs\<close> and \<open>PlaySummaryArgs\<close> check
  membership; \<open>UserState\<close> does not. So a state file whose voice is the string
  \<open>verse\<close> is loaded as it is: by \<open>load_state\<close>, and by the whole of
  \<open>initialize_server\<close> in a new process, after which the record holds a voice that is
  not in the list.
\<close>

theorem load_state_keeps_unlisted_voice:
  "voice (current_state (load_state (world0\<lparr>state_file := unlisted_voice_file\<rparr>))) = u ''verse''
   \<and> u ''verse'' \<notin> set VALID_VOICES
   \<and> (case initialize_server env0 (fresh_process (world0\<lparr>state_file := unlisted_voice_file\<rparr>)) of
        Inl _ \<Rightarrow> False
      | Inr w \<Rightarrow> voice (current_state w) = u ''verse'')"
proof -
  have b: "voice (current_state (load_state (world0\<lparr>state_file := unlisted_voice_file\<rparr>)))
      = u ''verse''"
    by (simp add: load_state_def unlisted_voice_file_def keys_differ)
  have c: "initialize_server env0 (fresh_process (world0\<lparr>state_file := unlisted_voice_file\<rparr>))
     = Inr (load_state (cleanup_old_files env0
         ((fresh_process (world0\<lparr>state_file := unlisted_voice_file\<rparr>))
            \<lparr>openai_client := True, audio_player := Some FallbackPlayer\<rparr>)))"
    by (simp add: initialize_server_def get_audio_player_env0 ensure_temp_dir_def)
       (simp add: env0_def truthy_def fresh_process_def world0_def u_def)
  have d: "voice (current_state (load_state (cleanup_old_files env0
         ((fresh_process (world0\<lparr>state_file := unlisted_voice_file\<rparr>))
            \<lparr>openai_client := True, audio_player := Some FallbackPlayer\<rparr>)))) = u ''verse''"
    by (simp add: load_state_def cleanup_old_files_def fresh_process_def world0_def
          unlisted_voice_file_def keys_differ env0_def)
  show ?thesis
    using b verse_unlisted d unfolding c by simp
qed

lemma format_voice_error:
  "format_errors [([u ''voice''], voice_msg)] =
     cross_mark @ u '' Invalid arguments: voice: Value error, Voice must be one of: alloy, ash, ballad, coral, echo, fable, nova, onyx, sage, shimmer''"
  by (simp add: format_errors_def voice_msg_def VALID_VOICES_def u_def)

lemma format_summary_voice_error:
  "format_errors [([u ''summary''], min_length_msg), ([u ''voice''], voice_msg)] =
     cross_mark @ u '' Invalid arguments: summary: String should have at least 1 character, voice: Value error, Voice must be one of: alloy, ash, ballad, coral, echo, fable, nova, onyx, sage, shimmer''"
  by (simp add: format_errors_def voice_msg_def min_length_msg_def VALID_VOICES_def u_def)

text \<open>
  C2. For every voice outside the list, \<open>set_voice\<close>, and \<open>play_summary\<close> with that voice
  as its explicit argument, return the failure string that lists the ten allowed voices
  (after the complaint about the summary, when that is empty too), and leave the world,
  hence both fields of the preference record, as it was.
\<close>

theorem invalid_voice_rejected:
  assumes "v \<notin> set VALID_VOICES"
  shows "set_voice e w v =
           (cross_mark @ u '' Invalid arguments: voice: Value error, Voice must be one of: alloy, ash, ballad, coral, echo, fable, nova, onyx, sage, shimmer'', w)
       \<and> play_summary e w summary (Some v) instructions =
           (cross_mark @ u '' Invalid arguments: '' @
              (if summary = [] then u ''summary: String should have at least 1 character, '' else []) @
              u ''voice: Value error, Voice must be one of: alloy, ash, ballad, coral, echo, fable, nova, onyx, sage, shimmer'', w)"
proof -
  have sv: "set_voice e w v = (format_errors [([u ''voice''], voice_msg)], w)"
    using assms by (simp add: set_voice_def set_voice_body_def SetVoiceArgs_new_def)
  have ps: "play_summary e w summary (Some v) instructions =
     (format_errors ((if summary = [] then [([u ''summary''], min_length_msg)] else []) @
        [([u ''voice''], voice_msg)]), w)"
    using assms by (simp add: play_summary_def play_summary_body_def PlaySummaryArgs_new_def)
  show ?thesis
  proof (cases "summary = []")
    case True
    have "play_summary e w summary (Some v) instructions =
       (format_errors [([u ''summary''], min_length_msg), ([u ''voice''], voice_msg)], w)"
      using ps True by simp
    then show ?thesis
      using sv True unfolding format_voice_error format_summary_voice_error
      by (simp add: u_def)
  next
    case False
    have "play_summary e w summary (Some v) instructions =
       (format_errors [([u ''voice''], voice_msg)], w)"
      using ps False by simp
    then show ?thesis
      using sv False unfolding format_voice_error
      by (simp add: u_def)
  qed
qed

theorem invalid_voice_rejected_witness:
  "u ''robot'' \<notin> set VALID_VOICES
   \<and> set_voice env0 world0 (u ''robot'') =
       (cross_mark @ u '' Invalid arguments: voice: Value error, Voice must be one of: alloy, ash, ballad, coral, echo, fable, nova, onyx, sage, shimmer'', world0)
   \<and> snd (play_summary env0 world0 (u ''hello'') (Some (u ''robot'')) None) = world0"
proof -
  note h = robot_unlisted
  from invalid_voice_rejected [OF h, of env0 world0 "u ''hello''" None]
  show ?thesis using h by simp
qed




section \<open>Startup sweep\<close>

lemma sweep_filter:
  "sweep e fs dir =
     filter (\<lambda>f. \<not> (f \<in> set fs \<and> (\<exists>m. stat e f = Some m \<and> now e - m > 3600)
                    \<and> \<not> unlink_fails e f)) dir"
proof (induction fs arbitrary: dir)
  case Nil
  then show ?case by simp
next
  case (Cons f fs)
  show ?case
    by (cases "stat e f") (auto simp: Cons.IH removeAll_filter_not_eq intro!: filter_cong)
qed

text \<open>
  C9. As stated the claim fails, because the loop ignores a \<open>stat\<close> or an \<open>unlink\<close> that
  raises: such a file stays, however old. What holds: when the scratch directory exists
  and can be listed, the sweep removes exactly the names that match \<open>speech_*.mp3\<close>,
  whose modification time can be read and lies more than 3600 seconds back, and whose
  \<open>unlink\<close> succeeds; every other name stays, in its place, and nothing else in the
  world changes.
\<close>

theorem cleanup_old_files_removes_stale:
  assumes "temp_dir w = Some dir" and "\<not> glob_fails e"
  shows "cleanup_old_files e w =
     w\<lparr>temp_dir := Some (filter (\<lambda>f. \<not> (matches_pattern f
            \<and> (\<exists>m. stat e f = Some m \<and> now e - m > 3600)
            \<and> \<not> unlink_fails e f)) dir)\<rparr>"
proof -
  have "sweep e (filter matches_pattern dir) dir =
     filter (\<lambda>f. \<not> (matches_pattern f \<and> (\<exists>m. stat e f = Some m \<and> now e - m > 3600)
            \<and> \<not> unlink_fails e f)) dir"
    unfolding sweep_filter by (rule filter_cong) auto
  with assms show ?thesis by (simp add: cleanup_old_files_def)
qed

theorem cleanup_old_files_removes_stale_witness:
  "temp_dir (world0\<lparr>temp_dir := Some [u ''speech_1.mp3'', u ''speech_2.mp3'', u ''notes.txt'']\<rparr>)
     = Some [u ''speech_1.mp3'', u ''speech_2.mp3'', u ''notes.txt'']
   \<and> \<not> glob_fails env_sweep
   \<and> temp_dir (cleanup_old_files env_sweep
        (world0\<lparr>temp_dir := Some [u ''speech_1.mp3'', u ''speech_2.mp3'', u ''notes.txt'']\<rparr>))
     = Some [u ''speech_2.mp3'', u ''notes.txt'']"
proof -
  have h1: "temp_dir (world0\<lparr>temp_dir := Some [u ''speech_1.mp3'', u ''speech_2.mp3'', u ''notes.txt'']\<rparr>)
     = Some [u ''speech_1.mp3'', u ''speech_2.mp3'', u ''notes.txt'']" by simp
  have h2: "\<not> glob_fails env_sweep" by (simp add: env_sweep_def env0_def)
  from cleanup_old_files_removes_stale [OF h1 h2] h1 h2 show ?thesis
    by (simp add: env_sweep_def env0_def matches_pattern_def u_def)
qed

text \<open>
  The sweep of C9 as stated, refuted: a file that matches the pattern, last modified at
  the epoch and so far older than an hour, is still there after the sweep when its
  \<open>unlink\<close> raises.
\<close>

theorem cleanup_old_files_keeps_busy_stale:
  "matches_pattern (u ''speech_1.mp3'')
   \<and> stat env_busy (u ''speech_1.mp3'') = Some 0
   \<and> now env_busy - 0 > 3600
   \<and> temp_dir (cleanup_old_files env_busy (world0\<lparr>temp_dir := Some [u ''speech_1.mp3'']\<rparr>))
       = Some [u ''speech_1.mp3'']"
  by (simp add: cleanup_old_files_def env_busy_def env0_def matches_pattern_def u_def)

section \<open>Properties of the tool handlers\<close>






text \<open>
  The two outside failures of \<open>play_summary\<close>, spelled out: an exception of the provider
  and an exception of the file write each come back as the failure string that carries
  the exception's text.
\<close>

lemma provider_exception_reported:
  assumes "PlaySummaryArgs_new s v i = Inr args" and "openai_client w"
    and "synth_error e \<lparr>req_model = u ''gpt-4o-mini-tts'',
        req_voice = or_else v (voice (current_state w)), req_input = s,
        req_instructions = or_else i (tone (current_state w))\<rparr> = Some msg"
  shows "fst (play_summary e w s v i) = cross_mark @ u '' Error playing summary: '' @ msg"
  using assms
  by (auto simp: play_summary_def play_summary_body_def PlaySummaryArgs_new_def
        synthesize_def Let_def split: if_splits option.splits)

lemma write_exception_reported:
  assumes "PlaySummaryArgs_new s v i = Inr args" and "openai_client w"
    and "synth_error e \<lparr>req_model = u ''gpt-4o-mini-tts'',
        req_voice = or_else v (voice (current_state w)), req_input = s,
        req_instructions = or_else i (tone (current_state w))\<rparr> = None"
    and "stream_fails e"
  shows "fst (play_summary e w s v i) =
     cross_mark @ u '' Error playing summary: '' @ stream_msg e"
  using assms
  by (auto simp: play_summary_def play_summary_body_def PlaySummaryArgs_new_def
        synthesize_def Let_def split: if_splits option.splits)

text \<open>
  C7. With the empty string as summary, \<open>play_summary\<close> returns a failure string that
  opens with the complaint about the summary, and the world is the one it started from:
  no request went to the provider and no file was added to the scratch directory.
\<close>

theorem empty_summary_rejected:
  "snd (play_summary e w [] v i) = w
   \<and> synth_calls (snd (play_summary e w [] v i)) = synth_calls w
   \<and> temp_dir (snd (play_summary e w [] v i)) = temp_dir w
   \<and> prefix (cross_mark @ u '' Invalid arguments: summary: String should have at least 1 character'')
        (fst (play_summary e w [] v i))"
proof -
  have "play_summary e w [] v i =
    (format_errors (([u ''summary''], min_length_msg) #
       (case v of None \<Rightarrow> []
        | Some x \<Rightarrow> if x \<notin> set VALID_VOICES then [([u ''voice''], voice_msg)] else [])), w)"
    by (simp add: play_summary_def play_summary_body_def PlaySummaryArgs_new_def)
  moreover have "prefix (cross_mark @ u '' Invalid arguments: summary: String should have at least 1 character'')
     (format_errors (([u ''summary''], min_length_msg) # rest))" for rest
    by (cases rest) (simp_all add: format_errors_def min_length_msg_def u_def)
  ultimately show ?thesis by simp
qed




section \<open>Artifact names\<close>

lemma play_summary_success_trace:
  assumes "\<not> raised (play_summary_body e w s v i)"
  shows "scheduled (snd (play_summary e w s v i)) = scheduled w @ [speech_file (timestamp e)]
    \<and> (\<exists>dir. temp_dir w = Some dir
          \<and> temp_dir (snd (play_summary e w s v i))
              = Some (stream_to_file (speech_file (timestamp e)) dir))"
  using assms
  by (auto simp: play_summary_def play_summary_body_def synthesize_def raised_def
        start_playback_def Let_def
      split: sum.splits option.splits if_splits prod.splits exn.splits)

text \<open>
  What the code does give: a successful call writes, and schedules for deletion, the
  file named after the millisecond of its clock reading, and two such names are equal
  exactly when the two milliseconds are.
\<close>

lemma speech_file_keyed_by_timestamp:
  assumes "\<not> raised (play_summary_body e1 w1 s1 v1 i1)"
    and "\<not> raised (play_summary_body e2 w2 s2 v2 i2)"
  shows "scheduled (snd (play_summary e1 w1 s1 v1 i1))
           = scheduled w1 @ [speech_file (timestamp e1)]
   \<and> scheduled (snd (play_summary e2 w2 s2 v2 i2))
           = scheduled w2 @ [speech_file (timestamp e2)]
   \<and> (speech_file (timestamp e1) = speech_file (timestamp e2)) = (timestamp e1 = timestamp e2)"
  using play_summary_success_trace [OF assms(1)] play_summary_success_trace [OF assms(2)]
    speech_file_inj [of "timestamp e1" "timestamp e2"]
  by blast

lemma first_call:
  "play_summary env0 world0 (u ''one'') None None =
     (play_summary_success (u ''coral'') (u ''one''),
      world0\<lparr>synth_calls := [\<lparr>req_model = u ''gpt-4o-mini-tts'', req_voice = u ''coral'',
                 req_input = u ''one'', req_instructions = default_instructions\<rparr>],
             temp_dir := Some [u ''speech_1700000000200.mp3''],
             spawned := [[u ''xdg-open'', u ''speech_1700000000200.mp3'']],
             scheduled := [u ''speech_1700000000200.mp3'']\<rparr>)"
  unfolding play_summary_def play_summary_body_def synthesize_def start_playback_def
    timestamp_env0 speech_file_sample
  by (simp add: PlaySummaryArgs_new_def world0_def UserState_default_def default_voice_def
        stream_to_file_def env0_def) (simp add: u_def)

lemma second_call:
  "play_summary env1
       (world0\<lparr>synth_calls := [\<lparr>req_model = u ''gpt-4o-mini-tts'', req_voice = u ''coral'',
                 req_input = u ''one'', req_instructions = default_instructions\<rparr>],
             temp_dir := Some [u ''speech_1700000000200.mp3''],
             spawned := [[u ''xdg-open'', u ''speech_1700000000200.mp3'']],
             scheduled := [u ''speech_1700000000200.mp3'']\<rparr>)
       (u ''two'') None None =
     (play_summary_success (u ''coral'') (u ''two''),
      world0\<lparr>synth_calls := [\<lparr>req_model = u ''gpt-4o-mini-tts'', req_voice = u ''coral'',
                 req_input = u ''one'', req_instructions = default_instructions\<rparr>,
               \<lparr>req_model = u ''gpt-4o-mini-tts'', req_voice = u ''coral'',
                 req_input = u ''two'', req_instructions = default_instructions\<rparr>],
             temp_dir := Some [u ''speech_1700000000200.mp3''],
             spawned := [[u ''xdg-open'', u ''speech_1700000000200.mp3''],
                         [u ''xdg-open'', u ''speech_1700000000200.mp3'']],
             scheduled := [u ''speech_1700000000200.mp3'', u ''speech_1700000000200.mp3'']\<rparr>)"
  unfolding play_summary_def play_summary_body_def synthesize_def start_playback_def
    timestamp_env1 speech_file_sample
  by (simp add: PlaySummaryArgs_new_def world0_def UserState_default_def default_voice_def
        stream_to_file_def env0_def env1_def) (simp add: u_def)

text \<open>
  C4. The claim asks that two distinct successful calls in one process never get the same
  artifact path, and the source announces a unique file name. The name is a function of
  the millisecond of \<open>time.time()\<close> alone, a wall clock that can stand still or be set
  back between two calls. Two calls whose clock readings differ but lie in the same
  millisecond both succeed and both get \<open>speech_1700000000200.mp3\<close>: the second call
  writes over the file of the first, and both deferred deletions aim at the one file.
  (Both readings lie well inside the millisecond, so the rounding of the floating-point
  product plays no part.)
\<close>

theorem same_millisecond_same_artifact:
  "now env0 \<noteq> now env1
   \<and> fst (play_summary env0 world0 (u ''one'') None None)
       = play_summary_success (u ''coral'') (u ''one'')
   \<and> fst (play_summary env1 (snd (play_summary env0 world0 (u ''one'') None None))
            (u ''two'') None None)
       = play_summary_success (u ''coral'') (u ''two'')
   \<and> scheduled (snd (play_summary env1 (snd (play_summary env0 world0 (u ''one'') None None))
            (u ''two'') None None))
       = [u ''speech_1700000000200.mp3'', u ''speech_1700000000200.mp3'']
   \<and> temp_dir (snd (play_summary env1 (snd (play_summary env0 world0 (u ''one'') None None))
            (u ''two'') None None))
       = Some [u ''speech_1700000000200.mp3'']"
proof -
  have "now env0 \<noteq> now env1" by (simp add: env0_def env1_def)
  then show ?thesis by (simp add: first_call second_call)
qed

section \<open>Instructions fallback\<close>

text \<open>
  What the code does give: an empty-string instructions argument gives the very result
  and world an absent one gives; once validation has passed and the client exists, the
  instructions sent in both cases are the stored tone; and with a non-empty stored tone
  no call sends empty instructions, whatever its argument.
\<close>

lemma empty_instructions_fall_back:
  assumes "s \<noteq> []" and "v = None \<or> (\<exists>x\<in>set VALID_VOICES. v = Some x)"
    and "openai_client w"
  shows "play_summary e w s v (Some []) = play_summary e w s v None
   \<and> map req_instructions (synth_calls (snd (play_summary e w s v (Some []))))
       = map req_instructions (synth_calls w) @ [tone (current_state w)]
   \<and> (tone (current_state w) \<noteq> [] \<longrightarrow>
        (\<exists>r. synth_calls (snd (play_summary e w s v i)) = synth_calls w @ [r]
             \<and> req_instructions r \<noteq> []))"
proof -
  have same: "play_summary e w s v (Some []) = play_summary e w s v None"
    by (simp add: play_summary_def play_summary_body_def PlaySummaryArgs_new_def Let_def)
  from assms(1,2) have args: "PlaySummaryArgs_new s v j =
     Inr \<lparr>args_summary = s, args_voice = v, args_instructions = j\<rparr>" for j
    by (cases s) (auto simp: PlaySummaryArgs_new_def)
  have calls: "synth_calls (snd (play_summary e w s v j)) =
     synth_calls w @ [\<lparr>req_model = u ''gpt-4o-mini-tts'',
        req_voice = or_else v (voice (current_state w)), req_input = s,
        req_instructions = or_else j (tone (current_state w))\<rparr>]" for j
    using assms(3)
    by (auto simp: play_summary_def play_summary_body_def args synthesize_def
          start_playback_def Let_def
        split: sum.splits option.splits if_splits prod.splits exn.splits)
  have nonempty: "tone (current_state w) \<noteq> [] \<Longrightarrow> or_else i (tone (current_state w)) \<noteq> []"
    by (cases i) auto
  show ?thesis
    using same calls [of "Some []"] calls [of i] nonempty by simp
qed

text \<open>
  C10. The claim asks that an empty-string instructions argument is replaced by the stored
  tone and that, for this reason, no empty string ever reaches the provider as
  instructions. The replacement is as claimed. But the stored tone can itself be empty:
  \<open>SetToneArgs\<close> demands one character, \<open>UserState\<close> demands nothing, so a state file
  with the tone \<open>""\<close> is loaded as it is, and the call below, with the empty string
  as its instructions argument, sends the provider a request whose instructions are empty.
\<close>

theorem empty_tone_reaches_provider:
  "tone (current_state (load_state (world0\<lparr>state_file := blank_tone_file\<rparr>))) = []
   \<and> synth_calls (snd (play_summary env0 (load_state (world0\<lparr>state_file := blank_tone_file\<rparr>))
       (u ''hello'') None (Some [])))
     = [\<lparr>req_model = u ''gpt-4o-mini-tts'', req_voice = u ''coral'', req_input = u ''hello'',
         req_instructions = []\<rparr>]"
proof -
  have l: "load_state (world0\<lparr>state_file := blank_tone_file\<rparr>) =
     world0\<lparr>state_file := blank_tone_file,
            current_state := \<lparr>voice = default_voice, tone = []\<rparr>\<rparr>"
    by (simp add: load_state_def blank_tone_file_def world0_def u_def)
  show ?thesis
    unfolding l play_summary_def play_summary_body_def synthesize_def start_playback_def
    by (simp add: PlaySummaryArgs_new_def world0_def default_voice_def env0_def u_def)
qed

end
